theory Spec2Isabelle
  imports Main "HOL-Library.List_Lexorder" "HOL-Library.Sublist" "HOL-Library.AList"
begin

section \<open>JavaScript values and strings\<close>

text \<open>
  A JavaScript string is a sequence of UTF-16 code units. A code unit is a natural
  number; a literal of the source is written \<open>S ''...''\<close>. The default comparison of
  \<open>Array.prototype.sort\<close> orders strings by their code units, which is the
  lexicographic order of \<open>nat list\<close>.
\<close>

type_synonym jsstring = "nat list"

abbreviation (input) S :: "string \<Rightarrow> jsstring" where
  "S s \<equiv> map of_char s"

text \<open>
  The values the library handles. A function value carries the text that
  \<open>Function.prototype.toString\<close> returns for it and the bindings of the scope it was
  created in; an object carries its own enumerable properties in the order of
  \<open>Object.keys\<close>.
\<close>

datatype jsval =
    Undefined
  | Null
  | Str jsstring
  | Fun jsstring "(jsstring \<times> jsval) list"
  | Obj "(jsstring \<times> jsval) list"

type_synonym jsobject = "(jsstring \<times> jsval) list"

datatype error =
    Error jsstring
  | TypeError
  | InvalidCharacterError
  | SyntaxError
  | Thrown jsstring

text \<open>\<open>typeof v\<close>.\<close>

fun typeof :: "jsval \<Rightarrow> jsstring" where
  "typeof Undefined = S ''undefined''"
| "typeof Null = S ''object''"
| "typeof (Str s) = S ''string''"
| "typeof (Fun src env) = S ''function''"
| "typeof (Obj ps) = S ''object''"

text \<open>The truth value of \<open>v\<close> in a condition (\<open>v ? a : b\<close>, \<open>filter(Boolean)\<close>).\<close>

fun truthy :: "jsval \<Rightarrow> bool" where
  "truthy Undefined = False"
| "truthy Null = False"
| "truthy (Str s) = (s \<noteq> [])"
| "truthy (Fun src env) = True"
| "truthy (Obj ps) = True"

text \<open>
  The string of a value: \<open>fn.toString()\<close> and the conversion inside a template
  literal. The library converts only values it has found truthy or of type function, so
  the equations for \<open>Undefined\<close> and \<open>Null\<close> (where \<open>.toString()\<close> would raise) are
  never used by it; they are those of the template literal.
\<close>

fun toString_js :: "jsval \<Rightarrow> jsstring" where
  "toString_js (Fun src env) = src"
| "toString_js (Str s) = s"
| "toString_js (Obj ps) = S ''[object Object]''"
| "toString_js Undefined = S ''undefined''"
| "toString_js Null = S ''null''"

text \<open>
  Reading a property, \<open>o[k]\<close>: the value stored under the key, \<open>undefined\<close> when
  there is none. Strings and functions are modelled without properties of their own.
\<close>

fun getProp :: "jsval \<Rightarrow> jsstring \<Rightarrow> jsval" where
  "getProp (Obj ps) k = (case map_of ps k of None \<Rightarrow> Undefined | Some v \<Rightarrow> v)"
| "getProp v k = Undefined"

text \<open>\<open>Object.keys(o)\<close> of an object.\<close>

definition objectKeys :: "jsobject \<Rightarrow> jsstring list" where
  "objectKeys ps = map fst ps"

subsection \<open>String operations\<close>

text \<open>\<open>s.startsWith(p)\<close>.\<close>

definition startsWith :: "jsstring \<Rightarrow> jsstring \<Rightarrow> bool" where
  "startsWith s p = prefix p s"

text \<open>\<open>s.indexOf(c)\<close> for a single code unit \<open>c\<close>: the first position, or -1.\<close>

fun indexOf :: "jsstring \<Rightarrow> nat \<Rightarrow> int" where
  "indexOf [] c = -1"
| "indexOf (x # xs) c =
     (if x = c then 0 else (let i = indexOf xs c in if i < 0 then -1 else i + 1))"

text \<open>\<open>s.slice(i)\<close>: a negative start counts from the end.\<close>

definition slice :: "jsstring \<Rightarrow> int \<Rightarrow> jsstring" where
  "slice s i = (if i < 0 then drop (nat (int (length s) + i)) s else drop (nat i) s)"

text \<open>\<open>xs.join(sep)\<close>.\<close>

fun join :: "jsstring \<Rightarrow> jsstring list \<Rightarrow> jsstring" where
  "join sep [] = []"
| "join sep [x] = x"
| "join sep (x # y # ys) = x @ sep @ join sep (y # ys)"

text \<open>\<open>s.includes(t)\<close>.\<close>

fun includes_js :: "jsstring \<Rightarrow> jsstring \<Rightarrow> bool" where
  "includes_js [] t = (t = [])"
| "includes_js (x # xs) t = (prefix t (x # xs) \<or> includes_js xs t)"

section \<open>The canonical serializer (generateFunctionsString.js)\<close>

definition handleFunction :: "jsstring \<Rightarrow> jsval \<Rightarrow> jsstring" where
  "handleFunction fnName fn =
     (let fnString = toString_js fn in
      if startsWith fnString (fnName @ S ''('') \<or> startsWith fnString (fnName @ S '' ('')
      then fnName @ S '': function '' @ fnName @ slice fnString (indexOf fnString 40)
      else fnName @ S '': '' @ fnString)"

text \<open>
  Destructuring \<open>const { encode, decode, preencode } = encoder\<close> raises a TypeError when
  \<open>encoder\<close> is \<open>undefined\<close> or \<open>null\<close>.
\<close>

definition generateFunctionsString :: "jsval \<Rightarrow> jsobject \<Rightarrow> error + jsstring" where
  "generateFunctionsString encoder dependencies =
     (if encoder = Undefined \<or> encoder = Null then Inl TypeError
      else
        let encode = getProp encoder (S ''encode'');
            decode = getProp encoder (S ''decode'');
            preencode = getProp encoder (S ''preencode'');
            depStrings =
              map (\<lambda>depName. handleFunction depName (getProp (Obj dependencies) depName))
                (filter (\<lambda>depName. typeof (getProp (Obj dependencies) depName) = S ''function'')
                  (objectKeys dependencies));
            properties =
              filter (\<lambda>s. s \<noteq> [])
                ([if truthy encode then handleFunction (S ''encode'') encode else [],
                  if truthy decode then handleFunction (S ''decode'') decode else [],
                  if truthy preencode then handleFunction (S ''preencode'') preencode else []]
                 @ depStrings)
        in Inr (if length properties > 0 then join (S '',\<newline>'') properties else []))"

section \<open>The environment of the library\<close>

text \<open>
  What the library imports and does not define: the module loader of the JavaScript
  engine (\<open>import(dataUri)\<close>, returning the module's default export as a function
  of its argument list, or the error it raises), \<open>b4a.from\<close> (string to bytes),
  \<open>crypto.subtle.digest('SHA-256', _)\<close>, \<open>cenc.from\<close>, and the two objects
  \<open>cenc\<close> and \<open>b4a\<close> handed to every module. They are parameters of the model.
\<close>

record platform =
  import_js :: "jsstring \<Rightarrow> error + (jsval list \<Rightarrow> error + jsval)"
  b4a_from :: "jsstring \<Rightarrow> nat list"
  subtle_digest :: "nat list \<Rightarrow> nat list"
  cenc_from :: "jsval \<Rightarrow> jsval"
  cenc :: jsval
  b4a :: jsval

text \<open>A hasher takes the bytes and returns the digest string, or raises.\<close>

type_synonym hasher = "nat list \<Rightarrow> error + jsstring"

section \<open>The integrity hasher (hasher.js)\<close>

text \<open>\<open>b.toString(16).padStart(2, '0')\<close> for an element \<open>b\<close> of a \<open>Uint8Array\<close>.\<close>

definition hexDigit :: "nat \<Rightarrow> nat" where
  "hexDigit d = (if d < 10 then 48 + d else 87 + d)"

definition hexByte :: "nat \<Rightarrow> jsstring" where
  "hexByte b = [hexDigit (b div 16 mod 16), hexDigit (b mod 16)]"

definition defaultHasher :: "platform \<Rightarrow> hasher" where
  "defaultHasher P data = Inr (concat (map hexByte (subtle_digest P data)))"

text \<open>The parameter \<open>hasher = defaultHasher\<close>: \<open>None\<close> is the omitted argument.\<close>

definition generateHash :: "platform \<Rightarrow> jsval \<Rightarrow> jsobject \<Rightarrow> hasher option \<Rightarrow> error + jsstring" where
  "generateHash P encoder dependencies hasher =
     (case generateFunctionsString encoder dependencies of
        Inl e \<Rightarrow> Inl e
      | Inr functionsString \<Rightarrow>
          (let encoderBuffer = b4a_from P functionsString
           in (case hasher of None \<Rightarrow> defaultHasher P | Some h \<Rightarrow> h) encoderBuffer))"

section \<open>The artifact packager (toDataUri.js)\<close>

text \<open>
  \<open>btoa\<close> of the platform: the base64 text of a string whose code units are all
  bytes; an InvalidCharacterError when one code unit is above 255.
\<close>

definition b64alphabet :: "nat list" where
  "b64alphabet = S ''ABCDEFGHIJKLMNOPQRSTUVWXYZabcdefghijklmnopqrstuvwxyz0123456789+/''"

definition b64 :: "nat \<Rightarrow> nat" where
  "b64 i = b64alphabet ! (i mod 64)"

fun base64 :: "nat list \<Rightarrow> nat list" where
  "base64 [] = []"
| "base64 [a] = [b64 (a div 4), b64 (a mod 4 * 16), 61, 61]"
| "base64 [a, b] = [b64 (a div 4), b64 (a mod 4 * 16 + b div 16), b64 (b mod 16 * 4), 61]"
| "base64 (a # b # c # r) =
     [b64 (a div 4), b64 (a mod 4 * 16 + b div 16), b64 (b mod 16 * 4 + c div 64), b64 (c mod 64)]
     @ base64 r"

definition btoa :: "jsstring \<Rightarrow> error + jsstring" where
  "btoa s = (if list_ex (\<lambda>c. c > 255) s then Inl InvalidCharacterError else Inr (base64 s))"

definition toDataUri :: "jsstring \<Rightarrow> error + jsstring" where
  "toDataUri code =
     (case btoa code of
        Inl e \<Rightarrow> Inl e
      | Inr base64text \<Rightarrow> Inr (S ''data:text/javascript;base64,'' @ base64text))"

text \<open>
  Decoding padded base64 text, as the consumer of a data URI does with its payload:
  the bytes, or \<open>None\<close> for text that is not padded base64.
\<close>

definition b64index :: "nat \<Rightarrow> nat option" where
  "b64index c = map_of (zip b64alphabet [0..<64]) c"

fun base64_decode :: "nat list \<Rightarrow> nat list option" where
  "base64_decode [] = Some []"
| "base64_decode [c1, c2, c3, c4] =
     (if c3 = 61 \<and> c4 = 61 then
        (case (b64index c1, b64index c2) of
           (Some s1, Some s2) \<Rightarrow> Some [s1 * 4 + s2 div 16]
         | _ \<Rightarrow> None)
      else if c4 = 61 then
        (case (b64index c1, b64index c2, b64index c3) of
           (Some s1, Some s2, Some s3) \<Rightarrow> Some [s1 * 4 + s2 div 16, s2 mod 16 * 16 + s3 div 4]
         | _ \<Rightarrow> None)
      else
        (case (b64index c1, b64index c2, b64index c3, b64index c4) of
           (Some s1, Some s2, Some s3, Some s4) \<Rightarrow>
             Some [s1 * 4 + s2 div 16, s2 mod 16 * 16 + s3 div 4, s3 mod 4 * 64 + s4]
         | _ \<Rightarrow> None))"
| "base64_decode (c1 # c2 # c3 # c4 # r) =
     (case (b64index c1, b64index c2, b64index c3, b64index c4) of
        (Some s1, Some s2, Some s3, Some s4) \<Rightarrow>
          map_option
            (\<lambda>bs. [s1 * 4 + s2 div 16, s2 mod 16 * 16 + s3 div 4, s3 mod 4 * 64 + s4] @ bs)
            (base64_decode r)
      | _ \<Rightarrow> None)"
| "base64_decode cs = None"

section \<open>The creator (index.js, generateEncodingUri)\<close>


section \<open>The loader (index.js, importEncodingFromUri)\<close>

text \<open>
  The third argument of \<open>load\<close>: \<open>Callable h\<close> is a function, used through its
  behaviour as a hasher; \<open>Value v\<close> is any value that is not a function. For
  \<open>Value Undefined\<close> (the argument left out) JavaScript puts the default
  \<open>defaultHasher\<close> in its place, which selects the same hasher and dependencies as
  the last branch below.
\<close>

datatype hasherOrDeps = Callable hasher | Value jsval

text \<open>Lines 8 to 15: which hasher and which dependencies the call uses.\<close>

definition selectHasherAndDependencies ::
  "platform \<Rightarrow> hasherOrDeps \<Rightarrow> jsobject \<Rightarrow> hasher \<times> jsval" where
  "selectHasherAndDependencies P hasherOrDeps dependencies =
     (case hasherOrDeps of
        Callable h \<Rightarrow> (h, Obj dependencies)
      | Value v \<Rightarrow>
          if typeof v = S ''object'' then (defaultHasher P, v)
          else (defaultHasher P, Obj dependencies))"

text \<open>
  The calls of \<open>load\<close> that run code outside it, in the order they happen: the import
  of the module (which evaluates its text), the call of its default export, the call of
  \<open>generateHash\<close> and the comparison of the two hashes.
\<close>

datatype event =
    EvImport jsstring
  | EvInvoke "jsval list"
  | EvGenerateHash jsval jsobject
  | EvCompare jsstring jsstring

text \<open>Line 18: the values of the dependencies in the order of their sorted keys.\<close>

definition sortedDependencies :: "jsobject \<Rightarrow> jsval list" where
  "sortedDependencies dependencies =
     map (getProp (Obj dependencies)) (sort (objectKeys dependencies))"

text \<open>
  \<open>load\<close> returns the events that happened and the result. \<open>Object.keys\<close> of
  \<open>null\<close> raises a TypeError.
\<close>

definition importEncodingFromUri ::
  "platform \<Rightarrow> jsstring \<Rightarrow> jsstring \<Rightarrow> hasherOrDeps \<Rightarrow> jsobject
    \<Rightarrow> event list \<times> (error + jsval)" where
  "importEncodingFromUri P dataUri expectedHash hasherOrDeps dependencies =
     (case selectHasherAndDependencies P hasherOrDeps dependencies of
        (hasher, Obj deps) \<Rightarrow>
          (let args = cenc P # b4a P # sortedDependencies deps
           in case import_js P dataUri of
                Inl e \<Rightarrow> ([EvImport dataUri], Inl e)
              | Inr module_default \<Rightarrow>
                  (case module_default args of
                     Inl e \<Rightarrow> ([EvImport dataUri, EvInvoke args], Inl e)
                   | Inr loadedEncoder \<Rightarrow>
                       (case generateHash P loadedEncoder deps (Some hasher) of
                          Inl e \<Rightarrow>
                            ([EvImport dataUri, EvInvoke args, EvGenerateHash loadedEncoder deps],
                             Inl e)
                        | Inr computedHash \<Rightarrow>
                            ([EvImport dataUri, EvInvoke args, EvGenerateHash loadedEncoder deps,
                              EvCompare computedHash expectedHash],
                             if computedHash \<noteq> expectedHash
                             then Inl (Error (S ''Data integrity check failed: hash mismatch.''))
                             else Inr (cenc_from P loadedEncoder)))))
      | (hasher, other) \<Rightarrow> ([], Inl TypeError))"

abbreviation load ::
  "platform \<Rightarrow> jsstring \<Rightarrow> jsstring \<Rightarrow> hasherOrDeps \<Rightarrow> jsobject \<Rightarrow> error + jsval" where
  "load P dataUri expectedHash hasherOrDeps dependencies \<equiv>
     snd (importEncodingFromUri P dataUri expectedHash hasherOrDeps dependencies)"


section \<open>What a created module denotes\<close>

text \<open>
  \<open>create\<close> writes the text of a module of one shape,
  \<^verbatim>\<open>export default function (cenc, b4a,k1,...,kn) { return { p1: e1, ..., pm: em }; }\<close>
  where every \<open>e\<close> is the source of a function or a string in double quotes. The
  engine evaluates such a text as follows: calling the exported function binds the
  parameters to the arguments and evaluates the properties in that scope; a function
  expression gives a function whose \<open>toString\<close> is its source, and a key written
  twice keeps its first position and takes its last value.
\<close>

datatype expr = FunctionExpr jsstring | StringLiteral jsstring

fun evalExpr :: "jsobject \<Rightarrow> expr \<Rightarrow> jsval" where
  "evalExpr scope (FunctionExpr src) = Fun src scope"
| "evalExpr scope (StringLiteral s) = Str s"

definition objectLiteral :: "(jsstring \<times> jsval) list \<Rightarrow> jsval" where
  "objectLiteral ps = Obj (foldl (\<lambda>acc (k, v). AList.update k v acc) [] ps)"

definition moduleObject ::
  "jsstring list \<Rightarrow> (jsstring \<times> expr) list \<Rightarrow> jsval list \<Rightarrow> jsval" where
  "moduleObject dependencyKeys props args =
     (let scope = zip (S ''cenc'' # S ''b4a'' # dependencyKeys) args
      in objectLiteral (map (\<lambda>(k, e). (k, evalExpr scope e)) props))"

definition moduleFactory ::
  "jsstring list \<Rightarrow> (jsstring \<times> expr) list \<Rightarrow> jsval list \<Rightarrow> error + jsval" where
  "moduleFactory dependencyKeys props args = Inr (moduleObject dependencyKeys props args)"

fun renderExpr :: "expr \<Rightarrow> jsstring" where
  "renderExpr (FunctionExpr src) = src"
| "renderExpr (StringLiteral s) = [34] @ s @ [34]"

definition renderProp :: "jsstring \<times> expr \<Rightarrow> jsstring" where
  "renderProp p = fst p @ S '': '' @ renderExpr (snd p)"

definition renderModule :: "jsstring list \<Rightarrow> (jsstring \<times> expr) list \<Rightarrow> jsstring" where
  "renderModule dependencyKeys props =
     S ''\<newline>export default function (cenc, b4a''
     @ concat (map (\<lambda>k. S '','' @ k) dependencyKeys)
     @ S '') {\<newline>    return {\<newline>        ''
     @ join (S '',\<newline>'') (map renderProp props)
     @ S ''\<newline>    };\<newline>}''"

text \<open>
  The properties that the text written by \<open>create\<close> spells: the source that
  \<open>handleFunction\<close> puts after \<open>name: \<close> for every capability and every
  function among the dependencies, then the name and the hash.
\<close>

definition sourceExpr :: "jsstring \<Rightarrow> jsval \<Rightarrow> jsstring" where
  "sourceExpr fnName fn = drop (length fnName + 2) (handleFunction fnName fn)"

definition capabilityNames :: "jsstring list" where
  "capabilityNames = [S ''encode'', S ''decode'', S ''preencode'']"

definition capabilityProp :: "jsval \<Rightarrow> jsstring \<Rightarrow> (jsstring \<times> expr) list" where
  "capabilityProp encoder k =
     (if truthy (getProp encoder k)
      then [(k, FunctionExpr (sourceExpr k (getProp encoder k)))] else [])"

definition functionProps :: "jsval \<Rightarrow> jsobject \<Rightarrow> (jsstring \<times> expr) list" where
  "functionProps encoder dependencies =
     concat (map (capabilityProp encoder) capabilityNames)
     @ map (\<lambda>k. (k, FunctionExpr (sourceExpr k (getProp (Obj dependencies) k))))
         (filter (\<lambda>k. typeof (getProp (Obj dependencies) k) = S ''function'')
           (objectKeys dependencies))"

definition moduleProps ::
  "jsstring \<Rightarrow> jsval \<Rightarrow> jsobject \<Rightarrow> jsstring \<Rightarrow> (jsstring \<times> expr) list" where
  "moduleProps encoderName encoder dependencies hash =
     (let nameValue =
            (if encoderName \<noteq> [] then Str encoderName else getProp encoder (S ''name''))
      in functionProps encoder dependencies
         @ (if truthy nameValue then [(S ''name'', StringLiteral (toString_js nameValue))] else [])
         @ [(S ''hash'', StringLiteral hash)])"

text \<open>
  The entries of the dependencies whose value is a function, in the order of
  \<open>Object.keys\<close>.
\<close>

definition functionEntries :: "jsobject \<Rightarrow> jsobject" where
  "functionEntries deps = filter (\<lambda>(k, v). typeof v = S ''function'') deps"

text \<open>
  An engine that knows the listed modules and no other: the import of the data URI of
  the text of one of them gives that module, any other import is a SyntaxError.
\<close>

definition importKnown ::
  "(jsstring list \<times> (jsstring \<times> expr) list) list \<Rightarrow> jsstring
    \<Rightarrow> error + (jsval list \<Rightarrow> error + jsval)" where
  "importKnown modules uri =
     (case find (\<lambda>(ks, ps). toDataUri (renderModule ks ps) = Inr uri) modules of
        None \<Rightarrow> Inl SyntaxError
      | Some (ks, ps) \<Rightarrow> Inr (moduleFactory ks ps))"


section \<open>Examples\<close>

text \<open>
  The hashers, encoders and dependencies of the repository's tests, and an environment
  for them: its engine knows the modules it is given, \<open>b4a.from\<close> is the UTF-8
  encoding of ASCII text (the identity), the digest is a stand-in, \<open>cenc.from\<close>
  returns the encoder it is given.
\<close>

definition fakeHasher :: hasher where
  "fakeHasher data = Inr (S ''fake-hash'')"


definition testPlatform :: "(jsstring list \<times> (jsstring \<times> expr) list) list \<Rightarrow> platform" where
  "testPlatform modules =
     \<lparr> import_js = importKnown modules, b4a_from = (\<lambda>s. s),
       subtle_digest = (\<lambda>bs. [length bs mod 256]),
       cenc_from = (\<lambda>v. v), cenc = Obj [], b4a = Obj [] \<rparr>"

definition stringEncoder :: jsval where
  "stringEncoder = Obj
     [(S ''encode'', Fun (S ''encode(state, value) { state.buffer = b4a.from(value); }'') []),
      (S ''decode'', Fun (S ''decode(state) { return state.buffer.toString(); }'') [])]"

definition helloDeps :: jsobject where
  \<open>helloDeps = [(S ''hello'', Fun (S ''hello() { return "world"; }'') [])]\<close>

definition helloProps :: "(jsstring \<times> expr) list" where
  "helloProps = moduleProps (S ''stringEncoder'') stringEncoder helloDeps (S ''fake-hash'')"

definition helloPlatform :: platform where
  "helloPlatform = testPlatform [(sort (objectKeys helloDeps), helloProps)]"

definition helloUri :: jsstring where
  "helloUri = S ''data:text/javascript;base64,''
     @ base64 (renderModule (sort (objectKeys helloDeps)) helloProps)"

definition mixedDeps :: jsobject where
  "mixedDeps =
     [(S ''zDep'', Fun (S ''zDep() { return 1; }'') []),
      (S ''dep'', Obj [(S ''process'', Fun (S ''process(value) { return value; }'') [])]),
      (S ''aDep'', Str (S ''text''))]"

























section \<open>Source forms (handleFunction)\<close>






lemma handleFunction_verbatim:
  assumes "\<not> startsWith (toString_js fn) (fnName @ S ''('')" "\<not> startsWith (toString_js fn) (fnName @ S '' ('')"
  shows "handleFunction fnName fn = fnName @ S '': '' @ toString_js fn"
  using assms by (simp add: handleFunction_def)







lemma handleFunction_nonempty: "handleFunction n f \<noteq> []"
  by (simp add: handleFunction_def Let_def)



section \<open>The text written by create and its evaluation\<close>

subsection \<open>Joining and rendering\<close>






lemma handleFunction_sourceExpr: "handleFunction n f = n @ S '': '' @ sourceExpr n f"
  by (simp add: sourceExpr_def handleFunction_def Let_def)

lemma renderProp_function: "renderProp (k, FunctionExpr (sourceExpr k f)) = handleFunction k f"
  by (simp add: renderProp_def handleFunction_sourceExpr)


lemma generateFunctionsString_render:
  assumes "encoder \<noteq> Undefined" "encoder \<noteq> Null"
  shows "generateFunctionsString encoder dependencies
         = Inr (join (S '',\<newline>'') (map renderProp (functionProps encoder dependencies)))"
proof -
  have f: "filter (\<lambda>s. s \<noteq> []) (map (\<lambda>k. handleFunction k (g k)) ks) = map (\<lambda>k. handleFunction k (g k)) ks" for g ks
    by (induction ks) (auto simp: handleFunction_nonempty)
  show ?thesis
    using assms
    by (simp add: generateFunctionsString_def functionProps_def capabilityNames_def
        capabilityProp_def Let_def renderProp_function f handleFunction_nonempty comp_def)
qed







subsection \<open>The object a created module returns\<close>




lemma map_of_rev_None: "map_of (rev xs) k = None \<longleftrightarrow> map_of xs k = None"
  by (simp add: map_of_eq_None_iff)




lemma getProp_distinct:
  "distinct (map fst ps) \<Longrightarrow> (k, v) \<in> set ps \<Longrightarrow> getProp (Obj ps) k = v"
  by simp

lemma dependency_entries:
  assumes "distinct (map fst deps)"
  shows "map (\<lambda>k. f k (getProp (Obj deps) k))
           (filter (\<lambda>k. typeof (getProp (Obj deps) k) = S ''function'') (objectKeys deps))
         = map (\<lambda>(k, v). f k v) (functionEntries deps)"
proof -
  have "map (\<lambda>k. f k (getProp (Obj deps) k))
           (filter (\<lambda>k. typeof (getProp (Obj deps) k) = S ''function'') (map fst ps))
         = map (\<lambda>(k, v). f k v) (filter (\<lambda>(k, v). typeof v = S ''function'') ps)"
    if "set ps \<subseteq> set deps" for ps
    using that
  proof (induction ps)
    case Nil
    then show ?case by simp
  next
    case (Cons p ps)
    obtain k v where p: "p = (k, v)" by (cases p)
    then have "getProp (Obj deps) k = v"
      using Cons.prems assms by (intro getProp_distinct) auto
    then show ?case using Cons p by auto
  qed
  then show ?thesis by (simp add: objectKeys_def functionEntries_def)
qed

lemma functionProps_entries:
  assumes "distinct (map fst deps)"
  shows "functionProps encoder deps
         = functionProps encoder [] @ map (\<lambda>(k, v). (k, FunctionExpr (sourceExpr k v))) (functionEntries deps)"
  using dependency_entries [OF assms, of "\<lambda>k v. (k, FunctionExpr (sourceExpr k v))"]
  by (simp add: functionProps_def objectKeys_def)








lemma moduleObject_Obj: "\<exists>ps. moduleObject ks props args = Obj ps"
  by (simp add: moduleObject_def objectLiteral_def)





section \<open>The examples evaluated\<close>

lemma toDataUri_latin1:
  "list_all (\<lambda>c. c \<le> 255) code \<Longrightarrow> toDataUri code = Inr (S ''data:text/javascript;base64,'' @ base64 code)"
  by (auto simp: toDataUri_def btoa_def list_all_iff list_ex_iff not_less)

lemma helloProps_eq:
  \<open>helloProps =
    [(S ''encode'', FunctionExpr (S ''function encode(state, value) { state.buffer = b4a.from(value); }'')),
     (S ''decode'', FunctionExpr (S ''function decode(state) { return state.buffer.toString(); }'')),
     (S ''hello'', FunctionExpr (S ''function hello() { return "world"; }'')),
     (S ''name'', StringLiteral (S ''stringEncoder'')),
     (S ''hash'', StringLiteral (S ''fake-hash''))]\<close>
  by (simp add: helloProps_def moduleProps_def functionProps_def capabilityNames_def capabilityProp_def
      stringEncoder_def helloDeps_def objectKeys_def sourceExpr_def handleFunction_def startsWith_def slice_def)

lemma hello_text:
  \<open>renderModule (sort (objectKeys helloDeps)) helloProps =
     S ''\<newline>export default function (cenc, b4a,hello) {\<newline>    return {\<newline>        encode: function encode(state, value) { state.buffer = b4a.from(value); },\<newline>decode: function decode(state) { return state.buffer.toString(); },\<newline>hello: function hello() { return "world"; },\<newline>name: "stringEncoder",\<newline>hash: "fake-hash"\<newline>    };\<newline>}''\<close>
  by (simp add: helloProps_eq renderModule_def renderProp_def helloDeps_def objectKeys_def)

lemma hello_latin1: "list_all (\<lambda>c. c \<le> 255) (renderModule (sort (objectKeys helloDeps)) helloProps)"
  unfolding hello_text by simp

lemma hello_toDataUri: "toDataUri (renderModule (sort (objectKeys helloDeps)) helloProps) = Inr helloUri"
  unfolding helloUri_def by (rule toDataUri_latin1 [OF hello_latin1])

lemma hello_import:
  "import_js helloPlatform helloUri = Inr (moduleFactory (sort (objectKeys helloDeps)) helloProps)"
  by (simp add: helloPlatform_def testPlatform_def importKnown_def hello_toDataUri)


lemma generateHash_fake:
  "encoder \<noteq> Undefined \<Longrightarrow> encoder \<noteq> Null \<Longrightarrow>
   generateHash P encoder deps (Some fakeHasher) = Inr (S ''fake-hash'')"
  by (simp add: generateHash_def generateFunctionsString_render fakeHasher_def)

lemma includes_hash_mismatch:
  "includes_js (S ''Data integrity check failed: hash mismatch.'') (S ''hash mismatch'')"
  by simp

lemma hello_select:
  "selectHasherAndDependencies helloPlatform (Callable fakeHasher) helloDeps = (fakeHasher, Obj helloDeps)"
  by (simp add: selectHasherAndDependencies_def)

lemma hello_factory:
  "moduleFactory ks ps args = Inr (moduleObject ks ps args)"
  by (simp add: moduleFactory_def)

lemma hello_hash:
  "generateHash P (moduleObject ks ps args) deps (Some fakeHasher) = Inr (S ''fake-hash'')"
proof -
  obtain obj where "moduleObject ks ps args = Obj obj"
    using moduleObject_Obj by blast
  then show ?thesis by (simp add: generateHash_fake)
qed

lemma mixed_distinct: "distinct (map fst mixedDeps)"
  by (simp add: mixedDeps_def)

lemma mixed_functionEntries:
  "functionEntries mixedDeps = [(S ''zDep'', Fun (S ''zDep() { return 1; }'') [])]"
  by (simp add: functionEntries_def mixedDeps_def)

lemma mixed_sorted:
  "map snd (sort_key fst mixedDeps) =
     [Str (S ''text''),
      Obj [(S ''process'', Fun (S ''process(value) { return value; }'') [])],
      Fun (S ''zDep() { return 1; }'') []]"
  by (simp add: mixedDeps_def)

lemma zDep_text:
  "generateFunctionsString (Obj []) [(S ''zDep'', Fun (S ''zDep() { return 1; }'') [])]
     = Inr (S ''zDep: function zDep() { return 1; }'')"
  by (simp add: generateFunctionsString_def objectKeys_def handleFunction_def startsWith_def slice_def)

section \<open>Integrity enforcement\<close>

text \<open>
  Claim C2. \<open>load\<close> returns an encoder exactly when the module was imported, its
  factory returned an encoder, and the hash recomputed from that encoder equals the
  expected hash; the value returned is then \<open>cenc.from\<close> of that encoder. Whenever
  the recomputed hash differs from the expected one, \<open>load\<close> raises the error
  \<open>Data integrity check failed: hash mismatch.\<close>, whose message contains
  \<open>hash mismatch\<close>, and returns nothing.
\<close>

theorem load_integrity:
  "(load P uri expectedHash X D = Inr r \<longleftrightarrow>
      (\<exists>hasher deps f enc.
          selectHasherAndDependencies P X D = (hasher, Obj deps)
          \<and> import_js P uri = Inr f
          \<and> f (cenc P # b4a P # sortedDependencies deps) = Inr enc
          \<and> generateHash P enc deps (Some hasher) = Inr expectedHash
          \<and> r = cenc_from P enc))
   \<and> (\<forall>hasher deps f enc computed.
          selectHasherAndDependencies P X D = (hasher, Obj deps)
          \<and> import_js P uri = Inr f
          \<and> f (cenc P # b4a P # sortedDependencies deps) = Inr enc
          \<and> generateHash P enc deps (Some hasher) = Inr computed
          \<and> computed \<noteq> expectedHash
        \<longrightarrow> load P uri expectedHash X D
              = Inl (Error (S ''Data integrity check failed: hash mismatch.''))
            \<and> includes_js (S ''Data integrity check failed: hash mismatch.'') (S ''hash mismatch''))"
proof -
  have a: "load P uri expectedHash X D = Inr r \<longleftrightarrow>
      (\<exists>hasher deps f enc.
          selectHasherAndDependencies P X D = (hasher, Obj deps)
          \<and> import_js P uri = Inr f
          \<and> f (cenc P # b4a P # sortedDependencies deps) = Inr enc
          \<and> generateHash P enc deps (Some hasher) = Inr expectedHash
          \<and> r = cenc_from P enc)"
    by (auto simp: importEncodingFromUri_def Let_def split: prod.splits jsval.splits sum.splits)
  have b: "load P uri expectedHash X D
              = Inl (Error (S ''Data integrity check failed: hash mismatch.''))"
    if "selectHasherAndDependencies P X D = (hasher, Obj deps)" "import_js P uri = Inr f"
      "f (cenc P # b4a P # sortedDependencies deps) = Inr enc"
      "generateHash P enc deps (Some hasher) = Inr computed" "computed \<noteq> expectedHash"
    for hasher deps f enc computed
    using that by (simp add: importEncodingFromUri_def Let_def)
  show ?thesis using a b includes_hash_mismatch by blast
qed

theorem load_integrity_witness:
  "load helloPlatform helloUri (S ''invalid-hash'') (Callable fakeHasher) helloDeps
     = Inl (Error (S ''Data integrity check failed: hash mismatch.''))
   \<and> includes_js (S ''Data integrity check failed: hash mismatch.'') (S ''hash mismatch'')
   \<and> load helloPlatform helloUri (S ''fake-hash'') (Callable fakeHasher) helloDeps
     = Inr (cenc_from helloPlatform
         (moduleObject (sort (objectKeys helloDeps)) helloProps
            (cenc helloPlatform # b4a helloPlatform # sortedDependencies helloDeps)))"
proof -
  have ne: "S ''fake-hash'' \<noteq> S ''invalid-hash''" by simp
  have 1: "load helloPlatform helloUri (S ''invalid-hash'') (Callable fakeHasher) helloDeps
     = Inl (Error (S ''Data integrity check failed: hash mismatch.''))
   \<and> includes_js (S ''Data integrity check failed: hash mismatch.'') (S ''hash mismatch'')"
    by (rule load_integrity [THEN conjunct2, rule_format,
          where hasher = fakeHasher and deps = helloDeps
            and f = "moduleFactory (sort (objectKeys helloDeps)) helloProps"
            and computed = "S ''fake-hash''"])
      (use hello_select hello_import hello_factory hello_hash ne in blast)
  have 2: "load helloPlatform helloUri (S ''fake-hash'') (Callable fakeHasher) helloDeps
     = Inr (cenc_from helloPlatform
         (moduleObject (sort (objectKeys helloDeps)) helloProps
            (cenc helloPlatform # b4a helloPlatform # sortedDependencies helloDeps)))"
    by (rule load_integrity [THEN conjunct1, THEN iffD2])
      (use hello_select hello_import hello_factory hello_hash in blast)
  show ?thesis using 1 2 by blast
qed

section \<open>Dependencies that are not functions\<close>

lemma map_insort_key: "map f (insort_key f x xs) = insort (f x) (map f xs)"
  by (induction xs) auto

lemma map_sort_key: "map f (sort_key f xs) = sort (map f xs)"
  by (induction xs) (auto simp: map_insort_key)

lemma sortedDependencies_values:
  assumes "distinct (map fst deps)"
  shows "sortedDependencies deps = map snd (sort_key fst deps)"
proof -
  have "map (getProp (Obj deps)) (map fst ps) = map snd ps" if "set ps \<subseteq> set deps" for ps
    using that assms by (induction ps) auto
  from this [of "sort_key fst deps"] show ?thesis
    by (simp add: sortedDependencies_def objectKeys_def map_sort_key [symmetric])
qed

lemma functionEntries_distinct: "distinct (map fst deps) \<Longrightarrow> distinct (map fst (functionEntries deps))"
  by (simp add: functionEntries_def distinct_map_filter)

lemma functionEntries_idem: "functionEntries (functionEntries deps) = functionEntries deps"
  by (simp add: functionEntries_def)

lemma generateFunctionsString_functionEntries:
  assumes "distinct (map fst deps)"
  shows "generateFunctionsString encoder deps = generateFunctionsString encoder (functionEntries deps)"
proof (cases "encoder = Undefined \<or> encoder = Null")
  case True
  then show ?thesis by (auto simp: generateFunctionsString_def)
next
  case False
  then have e: "encoder \<noteq> Undefined" "encoder \<noteq> Null" by auto
  show ?thesis
    by (simp add: generateFunctionsString_render [OF e] functionProps_entries [OF assms]
        functionProps_entries [OF functionEntries_distinct [OF assms]] functionEntries_idem)
qed

text \<open>
  Claim C6. The canonical text, and so the digest, is that of the dependencies whose
  value is a function: the other entries leave no trace in it. \<open>load\<close> still
  passes the value of every dependency to the factory, after \<open>cenc\<close> and
  \<open>b4a\<close>, in the order of the sorted keys.
\<close>

theorem noncallable_dependencies:
  assumes "distinct (map fst deps)"
  shows "generateFunctionsString encoder deps = generateFunctionsString encoder (functionEntries deps)
     \<and> generateHash P encoder deps hasher = generateHash P encoder (functionEntries deps) hasher
     \<and> sortedDependencies deps = map snd (sort_key fst deps)
     \<and> sorted (map fst (sort_key fst deps))
     \<and> length (sortedDependencies deps) = length deps
     \<and> set (sortedDependencies deps) = snd ` set deps
     \<and> (\<forall>f. import_js P uri = Inr f \<longrightarrow>
          (\<exists>rest. fst (importEncodingFromUri P uri expectedHash (Callable h) deps)
             = EvImport uri # EvInvoke (cenc P # b4a P # map snd (sort_key fst deps)) # rest))"
proof -
  have a: "generateFunctionsString encoder deps = generateFunctionsString encoder (functionEntries deps)"
    by (rule generateFunctionsString_functionEntries [OF assms])
  have b: "generateHash P encoder deps hasher = generateHash P encoder (functionEntries deps) hasher"
    by (simp add: generateHash_def a)
  have c: "sortedDependencies deps = map snd (sort_key fst deps)"
    by (rule sortedDependencies_values [OF assms])
  have d: "sorted (map fst (sort_key fst deps))" by simp
  have e: "length (sortedDependencies deps) = length deps" by (simp add: c)
  have f: "set (sortedDependencies deps) = snd ` set deps" by (simp add: c)
  have g: "\<exists>rest. fst (importEncodingFromUri P uri expectedHash (Callable h) deps)
             = EvImport uri # EvInvoke (cenc P # b4a P # map snd (sort_key fst deps)) # rest"
    if "import_js P uri = Inr f" for f
    using that
    by (auto simp: importEncodingFromUri_def selectHasherAndDependencies_def Let_def c
        split: sum.splits)
  show ?thesis using a b c d e f g by blast
qed

theorem noncallable_dependencies_witness:
  "distinct (map fst mixedDeps)
   \<and> generateFunctionsString (Obj []) mixedDeps = Inr (S ''zDep: function zDep() { return 1; }'')
   \<and> sortedDependencies mixedDeps =
       [Str (S ''text''),
        Obj [(S ''process'', Fun (S ''process(value) { return value; }'') [])],
        Fun (S ''zDep() { return 1; }'') []]
   \<and> import_js helloPlatform helloUri = Inr (moduleFactory (sort (objectKeys helloDeps)) helloProps)
   \<and> (\<exists>rest. fst (importEncodingFromUri helloPlatform helloUri [] (Callable fakeHasher) mixedDeps)
         = EvImport helloUri
           # EvInvoke [cenc helloPlatform, b4a helloPlatform, Str (S ''text''),
               Obj [(S ''process'', Fun (S ''process(value) { return value; }'') [])],
               Fun (S ''zDep() { return 1; }'') []]
           # rest)"
proof -
  note inst = noncallable_dependencies [OF mixed_distinct, of "Obj []" helloPlatform None helloUri "[]" fakeHasher]
  have a: "generateFunctionsString (Obj []) mixedDeps
        = generateFunctionsString (Obj []) (functionEntries mixedDeps)"
    by (rule inst [THEN conjunct1])
  have c: "sortedDependencies mixedDeps = map snd (sort_key fst mixedDeps)"
    by (rule inst [THEN conjunct2, THEN conjunct2, THEN conjunct1])
  have e: "\<exists>rest. fst (importEncodingFromUri helloPlatform helloUri [] (Callable fakeHasher) mixedDeps)
         = EvImport helloUri # EvInvoke (cenc helloPlatform # b4a helloPlatform # map snd (sort_key fst mixedDeps)) # rest"
    by (rule inst [THEN conjunct2, THEN conjunct2, THEN conjunct2, THEN conjunct2, THEN conjunct2,
          THEN conjunct2, rule_format, OF hello_import])
  show ?thesis
    using e hello_import
    unfolding a c mixed_functionEntries mixed_sorted zDep_text using mixed_distinct by simp
qed

section \<open>The third parameter of load\<close>

text \<open>
  Claim C7, as amended. A callable third argument is the hasher and the fourth argument
  is the dependency map. A third argument of type \<open>object\<close> is the dependency
  map, with the default hasher (and \<open>null\<close> raises a TypeError). Any other third
  argument (\<open>undefined\<close>, a string) is ignored: the default hasher and the fourth
  argument are used.
\<close>

theorem third_parameter:
  "selectHasherAndDependencies P (Callable h) D = (h, Obj D)
   \<and> (typeof v = S ''object'' \<longrightarrow>
        selectHasherAndDependencies P (Value v) D = (defaultHasher P, v))
   \<and> (typeof v \<noteq> S ''object'' \<and> typeof v \<noteq> S ''function'' \<longrightarrow>
        selectHasherAndDependencies P (Value v) D = (defaultHasher P, Obj D))
   \<and> importEncodingFromUri P uri expectedHash (Value (Obj X)) D
       = importEncodingFromUri P uri expectedHash (Callable (defaultHasher P)) X
   \<and> importEncodingFromUri P uri expectedHash (Value Null) D = ([], Inl TypeError)
   \<and> (typeof v \<noteq> S ''object'' \<and> typeof v \<noteq> S ''function'' \<longrightarrow>
        importEncodingFromUri P uri expectedHash (Value v) D
        = importEncodingFromUri P uri expectedHash (Callable (defaultHasher P)) D)"
  by (simp add: importEncodingFromUri_def selectHasherAndDependencies_def)

theorem third_parameter_witness:
  "typeof (Obj helloDeps) = S ''object''
   \<and> selectHasherAndDependencies helloPlatform (Value (Obj helloDeps)) mixedDeps
       = (defaultHasher helloPlatform, Obj helloDeps)
   \<and> typeof Undefined \<noteq> S ''object'' \<and> typeof Undefined \<noteq> S ''function''
   \<and> selectHasherAndDependencies helloPlatform (Value Undefined) mixedDeps
       = (defaultHasher helloPlatform, Obj mixedDeps)
   \<and> importEncodingFromUri helloPlatform helloUri (S ''fake-hash'') (Value Undefined) mixedDeps
       = importEncodingFromUri helloPlatform helloUri (S ''fake-hash'')
           (Callable (defaultHasher helloPlatform)) mixedDeps"
proof -
  have o: "typeof (Obj helloDeps) = S ''object''"
    and u: "typeof Undefined \<noteq> S ''object'' \<and> typeof Undefined \<noteq> S ''function''"
    by simp_all
  note t1 = third_parameter [of helloPlatform fakeHasher mixedDeps "Obj helloDeps" helloUri
        "S ''fake-hash''" "[]"]
  note t2 = third_parameter [of helloPlatform fakeHasher mixedDeps Undefined helloUri
        "S ''fake-hash''" "[]"]
  have 1: "selectHasherAndDependencies helloPlatform (Value (Obj helloDeps)) mixedDeps
       = (defaultHasher helloPlatform, Obj helloDeps)"
    by (rule t1 [THEN conjunct2, THEN conjunct1, rule_format, OF o])
  have 2: "selectHasherAndDependencies helloPlatform (Value Undefined) mixedDeps
       = (defaultHasher helloPlatform, Obj mixedDeps)"
    by (rule t2 [THEN conjunct2, THEN conjunct2, THEN conjunct1, THEN mp, OF u])
  have 3: "importEncodingFromUri helloPlatform helloUri (S ''fake-hash'') (Value Undefined) mixedDeps
       = importEncodingFromUri helloPlatform helloUri (S ''fake-hash'')
           (Callable (defaultHasher helloPlatform)) mixedDeps"
    by (rule t2 [THEN conjunct2, THEN conjunct2, THEN conjunct2, THEN conjunct2, THEN conjunct2,
          THEN mp, OF u])
  show ?thesis using o u 1 2 3 by blast
qed

text \<open>
  The claim as stated fails for a third argument that is neither callable nor an
  object: \<open>load(uri, hash, "abc", deps)\<close> uses \<open>deps\<close>, not \<open>"abc"\<close>, as
  the dependency map.
\<close>

theorem third_parameter_counterexample:
  "\<not> (snd (selectHasherAndDependencies helloPlatform (Value (Str (S ''abc''))) mixedDeps)
        = Str (S ''abc''))
   \<and> snd (selectHasherAndDependencies helloPlatform (Value (Str (S ''abc''))) mixedDeps)
        = Obj mixedDeps
   \<and> snd (selectHasherAndDependencies helloPlatform (Value Undefined) mixedDeps) = Obj mixedDeps"
  by (simp add: selectHasherAndDependencies_def)

section \<open>Evaluation precedes verification\<close>

text \<open>
  Claim C10. Whenever \<open>load\<close> compares hashes, it has imported the module (which
  evaluates its text) and called its factory before: the events are the import, the
  call, the call of \<open>generateHash\<close> on the encoder the factory returned, and the
  comparison, in this order. This holds in particular when the hashes differ and the
  error \<open>hash mismatch\<close> is raised: the check withholds the encoder, it does not
  keep the module's code from running.
\<close>

theorem evaluation_precedes_verification:
  "(\<forall>hasher deps f enc computed.
       selectHasherAndDependencies P X D = (hasher, Obj deps)
       \<and> import_js P uri = Inr f
       \<and> f (cenc P # b4a P # sortedDependencies deps) = Inr enc
       \<and> generateHash P enc deps (Some hasher) = Inr computed
       \<and> computed \<noteq> expectedHash
     \<longrightarrow> importEncodingFromUri P uri expectedHash X D
           = ([EvImport uri, EvInvoke (cenc P # b4a P # sortedDependencies deps),
               EvGenerateHash enc deps, EvCompare computed expectedHash],
              Inl (Error (S ''Data integrity check failed: hash mismatch.''))))
   \<and> (\<forall>c e. EvCompare c e \<in> set (fst (importEncodingFromUri P uri expectedHash X D)) \<longrightarrow>
        (\<exists>f args enc deps.
            import_js P uri = Inr f \<and> f args = Inr enc
            \<and> fst (importEncodingFromUri P uri expectedHash X D)
                = [EvImport uri, EvInvoke args, EvGenerateHash enc deps, EvCompare c e]))"
  by (auto simp: importEncodingFromUri_def Let_def split: prod.splits jsval.splits sum.splits)

theorem evaluation_precedes_verification_witness:
  "importEncodingFromUri helloPlatform helloUri (S ''invalid-hash'') (Callable fakeHasher) helloDeps
     = ([EvImport helloUri,
         EvInvoke (cenc helloPlatform # b4a helloPlatform # sortedDependencies helloDeps),
         EvGenerateHash
           (moduleObject (sort (objectKeys helloDeps)) helloProps
              (cenc helloPlatform # b4a helloPlatform # sortedDependencies helloDeps))
           helloDeps,
         EvCompare (S ''fake-hash'') (S ''invalid-hash'')],
        Inl (Error (S ''Data integrity check failed: hash mismatch.'')))
   \<and> EvCompare (S ''fake-hash'') (S ''invalid-hash'')
       \<in> set (fst (importEncodingFromUri helloPlatform helloUri (S ''invalid-hash'')
                   (Callable fakeHasher) helloDeps))
   \<and> (\<exists>f args enc deps.
          import_js helloPlatform helloUri = Inr f \<and> f args = Inr enc
          \<and> fst (importEncodingFromUri helloPlatform helloUri (S ''invalid-hash'')
                   (Callable fakeHasher) helloDeps)
              = [EvImport helloUri, EvInvoke args, EvGenerateHash enc deps,
                 EvCompare (S ''fake-hash'') (S ''invalid-hash'')])"
proof -
  have ne: "S ''fake-hash'' \<noteq> S ''invalid-hash''" by simp
  have 1: "importEncodingFromUri helloPlatform helloUri (S ''invalid-hash'') (Callable fakeHasher) helloDeps
     = ([EvImport helloUri,
         EvInvoke (cenc helloPlatform # b4a helloPlatform # sortedDependencies helloDeps),
         EvGenerateHash
           (moduleObject (sort (objectKeys helloDeps)) helloProps
              (cenc helloPlatform # b4a helloPlatform # sortedDependencies helloDeps))
           helloDeps,
         EvCompare (S ''fake-hash'') (S ''invalid-hash'')],
        Inl (Error (S ''Data integrity check failed: hash mismatch.'')))"
    by (rule evaluation_precedes_verification [THEN conjunct1, rule_format,
          where hasher = fakeHasher
            and f = "moduleFactory (sort (objectKeys helloDeps)) helloProps"])
      (use hello_select hello_import hello_factory hello_hash ne in blast)
  have 2: "EvCompare (S ''fake-hash'') (S ''invalid-hash'')
       \<in> set (fst (importEncodingFromUri helloPlatform helloUri (S ''invalid-hash'')
                   (Callable fakeHasher) helloDeps))"
    unfolding 1 by simp
  have 3: "\<exists>f args enc deps.
          import_js helloPlatform helloUri = Inr f \<and> f args = Inr enc
          \<and> fst (importEncodingFromUri helloPlatform helloUri (S ''invalid-hash'')
                   (Callable fakeHasher) helloDeps)
              = [EvImport helloUri, EvInvoke args, EvGenerateHash enc deps,
                 EvCompare (S ''fake-hash'') (S ''invalid-hash'')]"
    by (rule evaluation_precedes_verification [THEN conjunct2, rule_format, OF 2])
  show ?thesis using 1 2 3 by blast
qed

section \<open>Packing a module text\<close>

lemma b64alphabet_length: "length b64alphabet = 64"
  by (simp add: b64alphabet_def)

lemma b64alphabet_distinct: "distinct b64alphabet"
  by (simp add: b64alphabet_def)

lemma b64index_b64: "i < 64 \<Longrightarrow> b64index (b64 i) = Some i"
proof -
  assume i: "i < 64"
  have "map_of (zip b64alphabet [0..<64]) (b64alphabet ! i) = Some ([0..<64] ! i)"
    using i by (intro map_of_zip_nth) (simp_all add: b64alphabet_length b64alphabet_distinct)
  then show ?thesis using i by (simp add: b64index_def b64_def)
qed

lemma b64index_pad: "b64index 61 = None"
  by (simp add: b64index_def b64alphabet_def)


lemma b64_not_pad: "i < 64 \<Longrightarrow> b64 i \<noteq> 61"
  using b64index_b64 b64index_pad by fastforce

lemma sextet_bounds:
  fixes a b c :: nat
  assumes "a \<le> 255" "b \<le> 255" "c \<le> 255"
  shows "a div 4 < 64" "a mod 4 * 16 + b div 16 < 64" "b mod 16 * 4 + c div 64 < 64" "c mod 64 < 64"
    "a mod 4 * 16 < 64" "b mod 16 * 4 < 64"
proof -
  have "a mod 4 < 4" "b mod 16 < 16" by simp_all
  moreover have "b div 16 < 16" "c div 64 < 4" "a div 4 < 64"
    using assms by (simp_all add: div_less_iff_less_mult)
  ultimately show "a div 4 < 64" "a mod 4 * 16 + b div 16 < 64" "b mod 16 * 4 + c div 64 < 64"
    "c mod 64 < 64" "a mod 4 * 16 < 64" "b mod 16 * 4 < 64"
    by linarith+
qed

lemma sextet_bytes:
  fixes a b c :: nat
  assumes "b \<le> 255" "c \<le> 255"
  shows "a div 4 * 4 + (a mod 4 * 16 + b div 16) div 16 = a"
    "(a mod 4 * 16 + b div 16) mod 16 * 16 + (b mod 16 * 4 + c div 64) div 4 = b"
    "(b mod 16 * 4 + c div 64) mod 4 * 64 + c mod 64 = c"
    "a div 4 * 4 + (a mod 4 * 16) div 16 = a"
    "(a mod 4 * 16 + b div 16) mod 16 * 16 + (b mod 16 * 4) div 4 = b"
proof -
  have b: "b div 16 < 16" and c: "c div 64 < 4"
    using assms by (simp_all add: div_less_iff_less_mult)
  show "a div 4 * 4 + (a mod 4 * 16 + b div 16) div 16 = a" using b by simp
  show "(a mod 4 * 16 + b div 16) mod 16 * 16 + (b mod 16 * 4 + c div 64) div 4 = b"
    using b c by simp
  show "(b mod 16 * 4 + c div 64) mod 4 * 64 + c mod 64 = c" using c by simp
  show "a div 4 * 4 + (a mod 4 * 16) div 16 = a" by simp
  show "(a mod 4 * 16 + b div 16) mod 16 * 16 + (b mod 16 * 4) div 4 = b" using b by simp
qed

lemma base64_decode_base64:
  "list_all (\<lambda>c. c \<le> 255) bs \<Longrightarrow> base64_decode (base64 bs) = Some bs"
proof (induction bs rule: base64.induct)
  case 1
  then show ?case by simp
next
  case (2 a)
  then have le: "a \<le> 255" by simp
  have "a div 4 * 4 + (a mod 4 * 16) div 16 = a" by simp
  then show ?case
    using sextet_bounds [OF le le le] by (simp add: b64index_b64)
next
  case (3 a b)
  then have le: "a \<le> 255" "b \<le> 255" by simp_all
  show ?case
    using sextet_bounds [OF le le(1)] sextet_bytes [OF le(2) le(2)]
    by (simp add: b64index_b64 b64_not_pad)
next
  case (4 a b c r)
  then have le: "a \<le> 255" "b \<le> 255" "c \<le> 255" and r: "base64_decode (base64 r) = Some r"
    by simp_all
  note s = sextet_bounds [OF le] sextet_bytes [OF le(2) le(3)]
  show ?case
  proof (cases r)
    case Nil
    then show ?thesis using s by (simp add: b64index_b64 b64_not_pad)
  next
    case (Cons x xs)
    then obtain q where q: "base64 r = b64 (x div 4) # q" "q \<noteq> []"
      by (cases xs rule: base64.cases) auto
    then show ?thesis using s r by (simp add: b64index_b64)
  qed
qed


lemma toDataUri_not_latin1:
  "\<not> list_all (\<lambda>c. c \<le> 255) code \<Longrightarrow> toDataUri code = Inl InvalidCharacterError"
  by (auto simp: toDataUri_def btoa_def list_all_iff list_ex_iff not_le)

text \<open>
  Claim C9, as amended. For a module text whose code units are all at most 255,
  \<open>toDataUri\<close> returns \<open>data:text/javascript;base64,\<close> followed by the base64
  text of its code units, and decoding that payload gives the text back. For a text with
  a code unit above 255, \<open>btoa\<close> raises an InvalidCharacterError and no artifact
  is made. So whenever \<open>toDataUri\<close> returns, the payload decodes to the text.
\<close>

theorem toDataUri_roundtrip:
  "(list_all (\<lambda>c. c \<le> 255) code \<longrightarrow>
      toDataUri code = Inr (S ''data:text/javascript;base64,'' @ base64 code)
      \<and> base64_decode (base64 code) = Some code)
   \<and> (\<not> list_all (\<lambda>c. c \<le> 255) code \<longrightarrow> toDataUri code = Inl InvalidCharacterError)
   \<and> (\<forall>uri. toDataUri code = Inr uri \<longrightarrow>
         (\<exists>payload. uri = S ''data:text/javascript;base64,'' @ payload
            \<and> base64_decode payload = Some code))"
proof -
  have a: "toDataUri code = Inr (S ''data:text/javascript;base64,'' @ base64 code)
      \<and> base64_decode (base64 code) = Some code" if "list_all (\<lambda>c. c \<le> 255) code"
    using that toDataUri_latin1 base64_decode_base64 by blast
  have b: "toDataUri code = Inl InvalidCharacterError" if "\<not> list_all (\<lambda>c. c \<le> 255) code"
    using that by (rule toDataUri_not_latin1)
  have c: "\<exists>payload. uri = S ''data:text/javascript;base64,'' @ payload
            \<and> base64_decode payload = Some code" if "toDataUri code = Inr uri" for uri
  proof (cases "list_all (\<lambda>c. c \<le> 255) code")
    case True
    then show ?thesis using a that by auto
  next
    case False
    then show ?thesis using b that by simp
  qed
  show ?thesis using a b c by blast
qed

theorem toDataUri_roundtrip_witness:
  "list_all (\<lambda>c. c \<le> 255) (S ''hi'')
   \<and> toDataUri (S ''hi'') = Inr (S ''data:text/javascript;base64,aGk='')
   \<and> base64_decode (S ''aGk='') = Some (S ''hi'')
   \<and> (\<exists>payload. S ''data:text/javascript;base64,aGk='' = S ''data:text/javascript;base64,'' @ payload
          \<and> base64_decode payload = Some (S ''hi''))
   \<and> \<not> list_all (\<lambda>c. c \<le> 255) [47, 47, 9731 :: nat]
   \<and> toDataUri [47, 47, 9731 :: nat] = Inl InvalidCharacterError"
proof -
  have l: "list_all (\<lambda>c. c \<le> 255) (S ''hi'')" by simp
  have n: "\<not> list_all (\<lambda>c. c \<le> 255) [47, 47, 9731 :: nat]" by simp
  have e: "base64 (S ''hi'') = S ''aGk=''" by (simp add: b64_def b64alphabet_def)
  have 1: "toDataUri (S ''hi'') = Inr (S ''data:text/javascript;base64,'' @ base64 (S ''hi''))
      \<and> base64_decode (base64 (S ''hi'')) = Some (S ''hi'')"
    by (rule toDataUri_roundtrip [THEN conjunct1, THEN mp, OF l])
  then have u: "toDataUri (S ''hi'') = Inr (S ''data:text/javascript;base64,aGk='')"
    unfolding e by simp
  have 2: "toDataUri [47, 47, 9731 :: nat] = Inl InvalidCharacterError"
    by (rule toDataUri_roundtrip [THEN conjunct2, THEN conjunct1, THEN mp, OF n])
  have 3: "\<exists>payload. S ''data:text/javascript;base64,aGk='' = S ''data:text/javascript;base64,'' @ payload
          \<and> base64_decode payload = Some (S ''hi'')"
    by (rule toDataUri_roundtrip [THEN conjunct2, THEN conjunct2, rule_format, OF u])
  show ?thesis using l n 1 2 3 u unfolding e by blast
qed

text \<open>
  The claim as stated fails outside Latin-1: for the text \<open>//\<close> followed by
  U+2603, \<open>toDataUri\<close> returns no data URI.
\<close>

theorem toDataUri_roundtrip_counterexample:
  "\<not> (\<exists>payload. toDataUri [47, 47, 9731 :: nat] = Inr (S ''data:text/javascript;base64,'' @ payload))
   \<and> toDataUri [47, 47, 9731 :: nat] = Inl InvalidCharacterError"
  by (simp add: toDataUri_def btoa_def)

section \<open>The order of the dependencies\<close>

















section \<open>Loading what create has written\<close>




































section \<open>Swapping a dependency between create and load\<close>


















section \<open>Empty encoders\<close>












end
